theory Spec2Isabelle
  imports Main
begin

section \<open>Polar Plotter: values, errors and tables\<close>

text \<open>
  The program is one Streamlit script, \<^verbatim>\<open>app.py\<close>. Every rerun reads the widgets into
  local variables, computes the fill colour tuple \<^verbatim>\<open>rgba\<close> and then runs the visualization
  block under \<^verbatim>\<open>contextlib.suppress(IndexError, NameError)\<close>.

  Python text is a \<^typ>\<open>string\<close>; a character stands for the code point of the same number
  (code points below 256). The program never computes with a float, it only stores,
  passes on and prints them, so a float is represented by its \<^verbatim>\<open>repr\<close>, the shortest
  decimal text that reads back as the same float (\<^verbatim>\<open>0.5\<close> is \<open>PFloat ''0.5''\<close>).
\<close>

datatype py_error = IndexError | NameError | ValueError | KeyError

datatype pynum = PInt int | PFloat string

datatype pyval = Str string | Num pynum | StrList "string list"

text \<open>
  A pandas DataFrame: its columns in order, each a label with its cells. pandas keeps
  every column at the same number of rows; \<^verbatim>\<open>read_excel\<close> and the two built-in frames
  give distinct column labels.
\<close>

type_synonym dataframe = "(string \<times> pyval list) list"

definition columns :: "dataframe \<Rightarrow> string list" where
  "columns df = map fst df"

definition nrows :: "dataframe \<Rightarrow> nat" where
  "nrows df = (case df of [] \<Rightarrow> 0 | c # _ \<Rightarrow> length (snd c))"

definition valid_table :: "dataframe \<Rightarrow> bool" where
  "valid_table df \<longleftrightarrow> distinct (columns df) \<and> list_all (\<lambda>c. length (snd c) = nrows df) df"

text \<open>\<^verbatim>\<open>xs[i]\<close> for a non-negative index, on a list and on the column index alike.\<close>

definition getitem :: "'a list \<Rightarrow> nat \<Rightarrow> py_error + 'a" where
  "getitem xs i = (if i < length xs then Inr (xs ! i) else Inl IndexError)"

text \<open>
  \<^verbatim>\<open>list(df[name])\<close>: the cells of the column with that label. With a repeated label
  pandas returns a frame instead of a column; such tables are outside \<open>valid_table\<close>
  and the properties below do not speak about them.
\<close>

definition df_getitem :: "dataframe \<Rightarrow> string \<Rightarrow> py_error + pyval list" where
  "df_getitem df name = (case map_of df name of None \<Rightarrow> Inl KeyError | Some cells \<Rightarrow> Inr cells)"

section \<open>The fill colour\<close>

text \<open>
  \<^verbatim>\<open>int(s, 16)\<close> as CPython reads it: blanks around the number are skipped, a sign and
  a \<^verbatim>\<open>0x\<close> prefix are accepted, single underscores may separate digits, and anything
  else is a \<^verbatim>\<open>ValueError\<close>.
\<close>

definition is_space :: "char \<Rightarrow> bool" where
  "is_space c \<longleftrightarrow> (of_char c :: nat) \<in> {9, 10, 11, 12, 13, 32, 133, 160}"

definition digit_value :: "char \<Rightarrow> nat option" where
  "digit_value c =
     (let n = (of_char c :: nat) in
      if 48 \<le> n \<and> n \<le> 57 then Some (n - 48)
      else if 97 \<le> n \<and> n \<le> 102 then Some (n - 87)
      else if 65 \<le> n \<and> n \<le> 70 then Some (n - 55)
      else None)"

text \<open>
  The digit scan: \<open>prev\<close> is the character read last, \<open>acc\<close> the value so far and \<open>n\<close>
  the number of digits. It stops at the first character that is neither a digit nor an
  underscore and fails on a doubled or a trailing underscore.
\<close>

fun scan_digits :: "char option \<Rightarrow> nat \<Rightarrow> nat \<Rightarrow> string \<Rightarrow> (nat \<times> nat \<times> string) option" where
  "scan_digits prev acc n [] =
     (if prev = Some (CHR ''_'') then None else Some (acc, n, []))"
| "scan_digits prev acc n (c # cs) =
     (if c = CHR ''_'' then
        (if prev = Some (CHR ''_'') then None else scan_digits (Some c) acc n cs)
      else case digit_value c of
        Some d \<Rightarrow> scan_digits (Some c) (16 * acc + d) (Suc n) cs
      | None \<Rightarrow> (if prev = Some (CHR ''_'') then None else Some (acc, n, c # cs)))"

definition skip_sign :: "string \<Rightarrow> bool \<times> string" where
  "skip_sign s =
     (case s of
        [] \<Rightarrow> (False, s)
      | c # cs \<Rightarrow> if c = CHR ''+'' then (False, cs)
                 else if c = CHR ''-'' then (True, cs)
                 else (False, s))"

definition skip_prefix :: "string \<Rightarrow> string" where
  "skip_prefix s =
     (case s of
        c # x # cs \<Rightarrow>
          if c = CHR ''0'' \<and> (x = CHR ''x'' \<or> x = CHR ''X'') then
            (case cs of [] \<Rightarrow> cs | u # us \<Rightarrow> if u = CHR ''_'' then us else cs)
          else s
      | _ \<Rightarrow> s)"

definition int16 :: "string \<Rightarrow> py_error + int" where
  "int16 s =
     (let (neg, s1) = skip_sign (dropWhile is_space s);
          s2 = skip_prefix s1
      in if s2 \<noteq> [] \<and> hd s2 = CHR ''_'' then Inl ValueError
         else case scan_digits None 0 0 s2 of
           None \<Rightarrow> Inl ValueError
         | Some (v, n, rest) \<Rightarrow>
             if n = 0 then Inl ValueError
             else if dropWhile is_space rest \<noteq> [] then Inl ValueError
             else Inr (if neg then - int v else int v))"

text \<open>\<^verbatim>\<open>s.lstrip("#")\<close> and the slice \<^verbatim>\<open>s[i : i + 2]\<close>.\<close>

definition lstrip_hash :: "string \<Rightarrow> string" where
  "lstrip_hash s = dropWhile (\<lambda>c. c = CHR ''#'') s"

definition slice2 :: "string \<Rightarrow> nat \<Rightarrow> string" where
  "slice2 s i = take 2 (drop i s)"

text \<open>
  The list comprehension \<^verbatim>\<open>[int(fillcolor.lstrip("#")[i : i + 2], 16) for i in (0, 2, 4)]\<close>:
  the first failing element raises.
\<close>

fun channels :: "string \<Rightarrow> nat list \<Rightarrow> py_error + int list" where
  "channels fillcolor [] = Inr []"
| "channels fillcolor (i # is) =
     (case int16 (slice2 (lstrip_hash fillcolor) i) of
        Inl e \<Rightarrow> Inl e
      | Inr v \<Rightarrow> (case channels fillcolor is of Inl e \<Rightarrow> Inl e | Inr vs \<Rightarrow> Inr (v # vs)))"

definition rgba :: "string \<Rightarrow> pynum \<Rightarrow> py_error + pynum list" where
  "rgba fillcolor fill_opacity =
     (case channels fillcolor [0, 2, 4] of
        Inl e \<Rightarrow> Inl e
      | Inr vs \<Rightarrow> Inr (map PInt vs @ [fill_opacity]))"

text \<open>Printing: \<^verbatim>\<open>repr\<close> of an int, of a number and of a tuple of numbers.\<close>

function repr_nat :: "nat \<Rightarrow> string" where
  "repr_nat n =
     (if n < 10 then [char_of (48 + n)]
      else repr_nat (n div 10) @ [char_of (48 + n mod 10)])"
  by pat_completeness auto
termination
  by (relation "measure id") auto

declare repr_nat.simps [simp del]

definition repr_int :: "int \<Rightarrow> string" where
  "repr_int i = (if i < 0 then CHR ''-'' # repr_nat (nat (- i)) else repr_nat (nat i))"

fun repr_num :: "pynum \<Rightarrow> string" where
  "repr_num (PInt i) = repr_int i"
| "repr_num (PFloat s) = s"

text \<open>\<^verbatim>\<open>sep.join(xs)\<close>.\<close>

fun join :: "string \<Rightarrow> string list \<Rightarrow> string" where
  "join sep [] = []"
| "join sep [x] = x"
| "join sep (x # y # ys) = x @ sep @ join sep (y # ys)"

definition repr_tuple :: "pynum list \<Rightarrow> string" where
  "repr_tuple t =
     (case t of
        [] \<Rightarrow> ''()''
      | [x] \<Rightarrow> ''('' @ repr_num x @ '',)''
      | _ \<Rightarrow> ''('' @ join '', '' (map repr_num t) @ '')'')"

text \<open>
  The keyword argument
  \<^verbatim>\<open>fillcolor=f"RGBA{rgba}" if rgba else "RGBA(99, 110, 250, 0.5)"\<close>; a tuple is true
  when it is not empty.
\<close>

definition fillcolor_arg :: "pynum list \<Rightarrow> string" where
  "fillcolor_arg t = (if t \<noteq> [] then ''RGBA'' @ repr_tuple t else ''RGBA(99, 110, 250, 0.5)'')"

section \<open>The visualization block\<close>

text \<open>The radio button's three choices, in the order of the source.\<close>

datatype data_option = Example | Upload | Manual

text \<open>The values of the customization widgets, under the names of the script's variables.\<close>

record style =
  title :: string
  opacity :: pynum
  mode :: "string list"
  hovertemplate :: string
  marker_color :: string
  marker_opacity :: pynum
  marker_size :: pynum
  marker_symbol :: string
  line_color :: string
  line_dash :: string
  line_shape :: string
  line_smoothing :: pynum
  line_width :: pynum
  fillcolor :: string
  fill_opacity :: pynum

text \<open>What the widgets hold on a first run: each widget's \<^verbatim>\<open>value=\<close> or first option.\<close>

definition initial_style :: "data_option \<Rightarrow> style" where
  "initial_style option =
     \<lparr> title = (if option = Example then ''Job Requirements'' else ''''),
       opacity = PFloat ''1.0'',
       mode = [''lines'', ''markers''],
       hovertemplate = ''%{theta}: %{r}'',
       marker_color = ''#636EFA'',
       marker_opacity = PFloat ''1.0'',
       marker_size = PInt 6,
       marker_symbol = ''circle'',
       line_color = ''#636EFA'',
       line_dash = ''solid'',
       line_shape = ''linear'',
       line_smoothing = PFloat ''1.0'',
       line_width = PInt 2,
       fillcolor = ''#636EFA'',
       fill_opacity = PFloat ''0.5'' \<rparr>"

text \<open>The keyword arguments of \<^verbatim>\<open>go.Scatterpolar\<close>, of \<^verbatim>\<open>go.Layout\<close> and of \<^verbatim>\<open>go.Figure\<close>.\<close>

record scatterpolar =
  sp_r :: "pyval list"
  sp_theta :: "pyval list"
  sp_mode :: string
  sp_opacity :: pynum
  sp_hovertemplate :: string
  sp_marker_color :: string
  sp_marker_opacity :: pynum
  sp_marker_size :: pynum
  sp_marker_symbol :: string
  sp_line_color :: string
  sp_line_dash :: string
  sp_line_shape :: string
  sp_line_smoothing :: pynum
  sp_line_width :: pynum
  sp_fill :: string
  sp_fillcolor :: string

record layout =
  title_text :: string
  title_x :: pynum
  title_xanchor :: string
  paper_bgcolor :: string
  plot_bgcolor :: string

record figure =
  fig_data :: scatterpolar
  fig_layout :: layout

definition data :: "pyval list \<Rightarrow> pyval list \<Rightarrow> style \<Rightarrow> pynum list \<Rightarrow> scatterpolar" where
  "data vals labels sty t =
     \<lparr> sp_r = vals,
       sp_theta = labels,
       sp_mode = (if mode sty = [] then ''none'' else join ''+'' (mode sty)),
       sp_opacity = opacity sty,
       sp_hovertemplate = hovertemplate sty @ ''<extra></extra>'',
       sp_marker_color = marker_color sty,
       sp_marker_opacity = marker_opacity sty,
       sp_marker_size = marker_size sty,
       sp_marker_symbol = marker_symbol sty,
       sp_line_color = line_color sty,
       sp_line_dash = line_dash sty,
       sp_line_shape = line_shape sty,
       sp_line_smoothing = line_smoothing sty,
       sp_line_width = line_width sty,
       sp_fill = ''toself'',
       sp_fillcolor = fillcolor_arg t \<rparr>"

definition layout_of :: "data_option \<Rightarrow> style \<Rightarrow> layout" where
  "layout_of option sty =
     \<lparr> title_text = (if option = Example then ''Job Requirements'' else title sty),
       title_x = PFloat ''0.5'',
       title_xanchor = ''center'',
       paper_bgcolor = ''rgba(100,100,100,0)'',
       plot_bgcolor = ''rgba(100,100,100,0)'' \<rparr>"

text \<open>
  The statements of the \<^verbatim>\<open>with\<close> block up to \<^verbatim>\<open>fig\<close>, in order. The table is \<open>None\<close>
  when \<^verbatim>\<open>input_df\<close> was never assigned (the upload choice with no file), and reading
  the name then raises \<^verbatim>\<open>NameError\<close>.
\<close>

definition fig :: "data_option \<Rightarrow> dataframe option \<Rightarrow> style \<Rightarrow> pynum list \<Rightarrow> py_error + figure" where
  "fig option table sty t =
     (case table of
        None \<Rightarrow> Inl NameError
      | Some df \<Rightarrow>
     (case getitem (columns df) 0 of Inl e \<Rightarrow> Inl e | Inr c0 \<Rightarrow>
     (case df_getitem df c0 of Inl e \<Rightarrow> Inl e | Inr labels \<Rightarrow>
     (case getitem (columns df) 1 of Inl e \<Rightarrow> Inl e | Inr c1 \<Rightarrow>
     (case df_getitem df c1 of Inl e \<Rightarrow> Inl e | Inr vals \<Rightarrow>
     (case getitem labels 0 of Inl e \<Rightarrow> Inl e | Inr l0 \<Rightarrow>
     (case getitem vals 0 of Inl e \<Rightarrow> Inl e | Inr v0 \<Rightarrow>
        Inr \<lparr> fig_data = data (rev (vals @ [v0])) (rev (labels @ [l0])) sty t,
              fig_layout = layout_of option sty \<rparr>)))))))"

text \<open>
  \<^verbatim>\<open>with contextlib.suppress(...)\<close>: a listed exception ends the block quietly with
  nothing drawn (\<open>Inr None\<close>); any other exception goes on to the caller.
\<close>

definition suppress :: "py_error list \<Rightarrow> py_error + 'a \<Rightarrow> py_error + 'a option" where
  "suppress excs res =
     (case res of
        Inl e \<Rightarrow> if e \<in> set excs then Inr None else Inl e
      | Inr x \<Rightarrow> Inr (Some x))"

definition visualization ::
  "data_option \<Rightarrow> dataframe option \<Rightarrow> style \<Rightarrow> pynum list \<Rightarrow> py_error + figure option" where
  "visualization option table sty t = suppress [IndexError, NameError] (fig option table sty t)"

text \<open>
  One run of the script from the widget values on: \<^verbatim>\<open>rgba\<close> is computed in the sidebar
  section, outside the \<^verbatim>\<open>with\<close> block, and the visualization follows.
\<close>

definition script :: "data_option \<Rightarrow> dataframe option \<Rightarrow> style \<Rightarrow> py_error + figure option" where
  "script option table sty =
     (case rgba (fillcolor sty) (fill_opacity sty) of
        Inl e \<Rightarrow> Inl e
      | Inr t \<Rightarrow> visualization option table sty t)"

section \<open>Reset to defaults\<close>

text \<open>
  What the button's callback can reach: Streamlit's \<^verbatim>\<open>session_state\<close>, a dictionary
  from widget keys to values, and the script's table.
\<close>

record app_state =
  session_state :: "string \<rightharpoonup> pyval"
  input_df :: "dataframe option"

text \<open>The assignments of \<^verbatim>\<open>_reset\<close>, one after the other; a chained assignment stores left to right.\<close>

definition reset :: "app_state \<Rightarrow> app_state" where
  "reset st =
     st\<lparr> session_state :=
       (session_state st)
         (''title'' \<mapsto> Str '''',
          ''hovertemplate'' \<mapsto> Str ''%{theta}: %{r}'',
          ''opacity'' \<mapsto> Num (PInt 1),
          ''marker_opacity'' \<mapsto> Num (PInt 1),
          ''line_smoothing'' \<mapsto> Num (PInt 1),
          ''mode'' \<mapsto> StrList [''lines'', ''markers''],
          ''marker_color'' \<mapsto> Str ''#636EFA'',
          ''line_color'' \<mapsto> Str ''#636EFA'',
          ''fillcolor'' \<mapsto> Str ''#636EFA'',
          ''marker_size'' \<mapsto> Num (PInt 6),
          ''marker_symbol'' \<mapsto> Str ''circle'',
          ''line_dash'' \<mapsto> Str ''solid'',
          ''line_shape'' \<mapsto> Str ''linear'',
          ''line_width'' \<mapsto> Num (PInt 2),
          ''fill_opacity'' \<mapsto> Num (PFloat ''0.5'')) \<rparr>"

text \<open>The keys of the fifteen customization widgets, in the order the sidebar declares them.\<close>

definition style_keys :: "string list" where
  "style_keys =
     [''title'', ''opacity'', ''mode'', ''hovertemplate'', ''marker_color'', ''marker_opacity'',
      ''marker_size'', ''marker_symbol'', ''line_color'', ''line_dash'', ''line_shape'',
      ''line_smoothing'', ''line_width'', ''fillcolor'', ''fill_opacity'']"

text \<open>The table of the specification's scenario, as the manual editor holds it.\<close>

definition abc_table :: dataframe where
  "abc_table =
     [(''Label'', [Str ''A'', Str ''B'', Str ''C'']),
      (''Value'', [Num (PInt 1), Num (PInt 2), Num (PInt 3)])]"

text \<open>
  The built-in example frame \<^verbatim>\<open>_df\<close> as the data editor returns it unedited. Its second
  column mixes ints and floats, so pandas stores every cell as a float (\<^verbatim>\<open>4\<close> is
  \<^verbatim>\<open>4.0\<close>). An uploaded sheet can hold the same columns.
\<close>

definition example_df :: dataframe where
  "example_df =
     [(''Skill'',
        [Str ''Computer Vision'', Str ''Prototyping'', Str ''Classic ML'', Str ''AE/VAE'',
         Str ''Visualization'', Str ''Storytelling'', Str ''BI'', Str ''SQL'', Str ''Deploy'',
         Str ''MLOps'', Str ''Excel'', Str ''Reporting'', Str ''ViT'', Str ''Diffusers'',
         Str ''Python'', Str ''NLP'']),
      (''Proficiency'',
        [Num (PFloat ''4.2''), Num (PFloat ''4.7''), Num (PFloat ''2.3''), Num (PFloat ''4.0''),
         Num (PFloat ''1.9''), Num (PFloat ''2.4''), Num (PFloat ''0.5''), Num (PFloat ''0.6''),
         Num (PFloat ''0.2''), Num (PFloat ''0.3''), Num (PFloat ''5.0''), Num (PFloat ''1.6''),
         Num (PFloat ''4.0''), Num (PFloat ''2.4''), Num (PFloat ''3.4''), Num (PFloat ''3.0'')])]"

section \<open>Properties\<close>

subsection \<open>Auxiliary facts\<close>

lemma digit_value_SomeD:
  assumes "digit_value c = Some d"
  shows "d < 16" and "c \<noteq> CHR ''_''" and "c \<noteq> CHR ''#''" and "c \<noteq> CHR ''+''"
    and "c \<noteq> CHR ''-''" and "c \<noteq> CHR ''x''" and "c \<noteq> CHR ''X''" and "\<not> is_space c"
  using assms by (auto simp: digit_value_def is_space_def Let_def split: if_splits)

lemma int16_two_digits:
  assumes a: "digit_value a = Some d" and b: "digit_value b = Some e"
  shows "int16 [a, b] = Inr (int (16 * d + e))"
  using digit_value_SomeD [OF a] digit_value_SomeD [OF b] a b
  by (simp add: int16_def skip_sign_def skip_prefix_def)

lemma int16_error: "int16 s = Inl e \<Longrightarrow> e = ValueError"
  by (auto simp: int16_def Let_def split: prod.splits option.splits if_splits)

lemma channels_error: "channels fc is = Inl e \<Longrightarrow> e = ValueError"
  by (induction "is" arbitrary: e) (auto split: sum.splits dest: int16_error)

lemma channels_length: "channels fc is = Inr vs \<Longrightarrow> length vs = length is"
  by (induction "is" arbitrary: vs) (auto split: sum.splits)

lemma channels_fail_iff:
  "(\<exists>e. channels fc is = Inl e) \<longleftrightarrow> (\<exists>i\<in>set is. \<exists>e. int16 (slice2 (lstrip_hash fc) i) = Inl e)"
  by (induction "is") (auto split: sum.splits)

lemma map_of_nth_fst:
  "i < length df \<Longrightarrow> \<exists>cells. map_of df (fst (df ! i)) = Some cells"
  by (metis domD dom_map_of_conv_image_fst image_eqI nth_mem)

lemma map_of_nth_distinct:
  "distinct (map fst df) \<Longrightarrow> i < length df \<Longrightarrow> map_of df (fst (df ! i)) = Some (snd (df ! i))"
  by (simp add: map_of_eq_Some_iff)

lemma valid_table_length:
  "valid_table df \<Longrightarrow> i < length df \<Longrightarrow> length (snd (df ! i)) = nrows df"
  by (simp add: valid_table_def list_all_length)

lemma fig_ok:
  assumes v: "valid_table df" and c: "2 \<le> length df" and n: "1 \<le> nrows df"
  shows "fig opt (Some df) sty t =
     Inr \<lparr> fig_data = data (rev (snd (df ! 1) @ [hd (snd (df ! 1))]))
                           (rev (snd (df ! 0) @ [hd (snd (df ! 0))])) sty t,
           fig_layout = layout_of opt sty \<rparr>"
proof -
  from v have d: "distinct (map fst df)" by (simp add: valid_table_def columns_def)
  from c have l0: "0 < length df" and l1: "1 < length df" by auto
  from n valid_table_length [OF v l0] valid_table_length [OF v l1]
  have n0: "0 < length (snd (df ! 0))" and n1: "0 < length (snd (df ! 1))"
    by auto
  have m0: "map_of df (fst (df ! 0)) = Some (snd (df ! 0))"
    using map_of_nth_distinct [OF d l0] .
  have m1: "map_of df (fst (df ! 1)) = Some (snd (df ! 1))"
    using map_of_nth_distinct [OF d l1] .
  show ?thesis
    using l0 l1 n0 n1 m0 m1
    by (simp add: fig_def getitem_def columns_def df_getitem_def hd_conv_nth)
qed

lemma fig_error: "fig opt table sty t = Inl e \<Longrightarrow> e = IndexError \<or> e = NameError"
proof (cases table)
  case None
  assume "fig opt table sty t = Inl e"
  with None show ?thesis by (simp add: fig_def)
next
  case (Some df)
  assume f: "fig opt table sty t = Inl e"
  show ?thesis
  proof (cases "1 < length df")
    case True
    then have l0: "0 < length df" by auto
    obtain a where a: "map_of df (fst (df ! 0)) = Some a"
      using map_of_nth_fst [OF l0] by blast
    obtain b where b: "map_of df (fst (df ! 1)) = Some b"
      using map_of_nth_fst [OF True] by blast
    from f Some True l0 a b show ?thesis
      by (simp add: fig_def getitem_def columns_def df_getitem_def split: if_splits)
  next
    case False
    show ?thesis
    proof (cases "0 < length df")
      case True
      obtain a where a: "map_of df (fst (df ! 0)) = Some a"
        using map_of_nth_fst [OF True] by blast
      from f Some True False a show ?thesis
        by (simp add: fig_def getitem_def columns_def df_getitem_def split: if_splits)
    next
      case F2: False
      from f Some F2 show ?thesis
        by (simp add: fig_def getitem_def columns_def)
    qed
  qed
qed

lemma fig_style:
  assumes "fig opt table sty t = Inr f"
  shows "sp_mode (fig_data f) = (if mode sty = [] then ''none'' else join ''+'' (mode sty))"
    and "sp_hovertemplate (fig_data f) = hovertemplate sty @ ''<extra></extra>''"
    and "sp_fill (fig_data f) = ''toself''"
    and "sp_fillcolor (fig_data f) = fillcolor_arg t"
    and "fig_layout f = layout_of opt sty"
  using assms by (auto simp: fig_def data_def split: option.splits sum.splits)

lemma visualization_Some:
  "visualization opt table sty t = Inr (Some f) \<longleftrightarrow> fig opt table sty t = Inr f"
  by (auto simp: visualization_def suppress_def split: sum.splits)

lemma visualization_None:
  "visualization opt table sty t = Inr None \<longleftrightarrow> (\<exists>e. fig opt table sty t = Inl e)"
  by (auto simp: visualization_def suppress_def split: sum.splits dest: fig_error)

lemma rgba_error: "rgba fc alpha = Inl e \<Longrightarrow> e = ValueError"
  by (auto simp: rgba_def simp del: channels.simps split: sum.splits dest: channels_error)

lemma rgba_length: "rgba fc alpha = Inr t \<Longrightarrow> length t = 4"
  by (auto simp: rgba_def simp del: channels.simps split: sum.splits dest: channels_length)

lemma script_Some:
  "script opt table sty = Inr (Some f) \<longleftrightarrow>
     (\<exists>t. rgba (fillcolor sty) (fill_opacity sty) = Inr t \<and> fig opt table sty t = Inr f)"
  by (auto simp: script_def visualization_Some split: sum.splits)

lemma layout_of_retitle:
  "layout_of opt2 sty =
     (layout_of opt1 sty)\<lparr>title_text := (if opt2 = Example then ''Job Requirements'' else title sty)\<rparr>"
  by (simp add: layout_of_def)

lemma layout_of_same:
  "(opt1 = Example) = (opt2 = Example) \<or> title sty = ''Job Requirements'' \<Longrightarrow>
     layout_of opt1 sty = layout_of opt2 sty"
  by (auto simp: layout_of_def)

lemma fig_other_option:
  "fig opt2 table sty t =
     (case fig opt1 table sty t of
        Inl e \<Rightarrow> Inl e
      | Inr f \<Rightarrow> Inr (f\<lparr>fig_layout := layout_of opt2 sty\<rparr>))"
  by (simp add: fig_def split: option.splits sum.splits)

lemma fig_same_layout:
  assumes "layout_of opt1 sty = layout_of opt2 sty"
  shows "fig opt1 table sty t = fig opt2 table sty t"
  by (simp only: fig_def assms)

subsection \<open>The closed polygon\<close>

text \<open>
  Claim C1. For a table with distinct column labels, at least two columns and \<open>N \<ge> 1\<close>
  rows, with any style, any fill tuple and any data-entry choice, the block draws a chart
  whose angle and radius sequences are the first and the second column, each with its
  first cell appended and then reversed, so each has \<open>N + 1\<close> points. On the table
  (A, 1), (B, 2), (C, 3) the labels are A, C, B, A and the values 1, 3, 2, 1.
\<close>

theorem closed_polygon_reversed:
  assumes "valid_table df" and "2 \<le> length df" and "1 \<le> nrows df"
  shows "\<exists>f. visualization opt (Some df) sty t = Inr (Some f)
           \<and> sp_theta (fig_data f) = rev (snd (df ! 0) @ [hd (snd (df ! 0))])
           \<and> sp_r (fig_data f) = rev (snd (df ! 1) @ [hd (snd (df ! 1))])
           \<and> length (sp_theta (fig_data f)) = nrows df + 1
           \<and> length (sp_r (fig_data f)) = nrows df + 1"
proof -
  from assms(2) have "0 < length df" and "1 < length df"
    by auto
  then have "length (snd (df ! 0)) = nrows df" and "length (snd (df ! 1)) = nrows df"
    using valid_table_length [OF assms(1)] by blast+
  then show ?thesis
    by (simp add: visualization_Some fig_ok [OF assms] data_def)
qed

theorem closed_polygon_reversed_witness:
  "valid_table abc_table \<and> 2 \<le> length abc_table \<and> 1 \<le> nrows abc_table \<and>
   (\<exists>f. visualization Manual (Some abc_table) (initial_style Manual)
           [PInt 99, PInt 110, PInt 250, PFloat ''0.5''] = Inr (Some f)
       \<and> sp_theta (fig_data f) = [Str ''A'', Str ''C'', Str ''B'', Str ''A'']
       \<and> sp_r (fig_data f) = [Num (PInt 1), Num (PInt 3), Num (PInt 2), Num (PInt 1)]
       \<and> length (sp_theta (fig_data f)) = 4
       \<and> length (sp_r (fig_data f)) = 4)"
  using closed_polygon_reversed [of abc_table Manual "initial_style Manual"
      "[PInt 99, PInt 110, PInt 250, PFloat ''0.5'']"]
  by (auto simp: abc_table_def valid_table_def columns_def nrows_def)

text \<open>
  Claim C10. Under the same conditions the two sequences have the same length, and each
  starts and ends with the first row's cell: the polygon is still closed after the
  reversal.
\<close>

theorem polygon_stays_closed:
  assumes "valid_table df" and "2 \<le> length df" and "1 \<le> nrows df"
  shows "\<exists>f. visualization opt (Some df) sty t = Inr (Some f)
           \<and> length (sp_theta (fig_data f)) = length (sp_r (fig_data f))
           \<and> hd (sp_theta (fig_data f)) = hd (snd (df ! 0))
           \<and> last (sp_theta (fig_data f)) = hd (snd (df ! 0))
           \<and> hd (sp_r (fig_data f)) = hd (snd (df ! 1))
           \<and> last (sp_r (fig_data f)) = hd (snd (df ! 1))"
proof -
  from assms(2) have "0 < length df" and "1 < length df"
    by auto
  then have l: "length (snd (df ! 0)) = nrows df" "length (snd (df ! 1)) = nrows df"
    using valid_table_length [OF assms(1)] by blast+
  with assms(3) have ne: "snd (df ! 0) \<noteq> []" "snd (df ! 1) \<noteq> []"
    by auto
  show ?thesis
    using l ne
    by (simp add: visualization_Some fig_ok [OF assms] data_def last_rev)
qed

theorem polygon_stays_closed_witness:
  "valid_table abc_table \<and> 2 \<le> length abc_table \<and> 1 \<le> nrows abc_table \<and>
   (\<exists>f. visualization Example (Some abc_table) (initial_style Example)
           [PInt 99, PInt 110, PInt 250, PFloat ''0.5''] = Inr (Some f)
       \<and> length (sp_theta (fig_data f)) = length (sp_r (fig_data f))
       \<and> hd (sp_theta (fig_data f)) = Str ''A''
       \<and> last (sp_theta (fig_data f)) = Str ''A''
       \<and> hd (sp_r (fig_data f)) = Num (PInt 1)
       \<and> last (sp_r (fig_data f)) = Num (PInt 1))"
  using polygon_stays_closed [of abc_table Example "initial_style Example"
      "[PInt 99, PInt 110, PInt 250, PFloat ''0.5'']"]
  by (simp add: abc_table_def valid_table_def columns_def nrows_def)

subsection \<open>Tables that draw nothing\<close>

text \<open>
  Claim C2. When the table was never assigned, or is a well-formed table with fewer than
  two columns or with no rows, the visualization block raises nothing: it ends with no
  chart.
\<close>

theorem no_table_no_chart:
  assumes "table = None \<or>
     (\<exists>df. table = Some df \<and> valid_table df \<and> (length df < 2 \<or> nrows df = 0))"
  shows "visualization opt table sty t = Inr None"
proof -
  have "\<exists>e. fig opt table sty t = Inl e"
  proof (cases table)
    case None
    then show ?thesis by (simp add: fig_def)
  next
    case (Some df)
    with assms have s: "length df < 2 \<or> nrows df = 0" by simp
    show ?thesis
    proof (cases df)
      case Nil
      with Some show ?thesis by (simp add: fig_def getitem_def columns_def)
    next
      case (Cons c0 cs)
      show ?thesis
      proof (cases cs)
        case Nil
        with Some Cons show ?thesis
          by (simp add: fig_def getitem_def columns_def df_getitem_def)
      next
        case (Cons c1 cs')
        with s \<open>df = c0 # cs\<close> have "snd c0 = []" by (simp add: nrows_def)
        with Some Cons \<open>df = c0 # cs\<close> show ?thesis
          by (simp add: fig_def getitem_def columns_def df_getitem_def split: option.splits)
      qed
    qed
  qed
  then show ?thesis by (simp add: visualization_None)
qed

theorem no_table_no_chart_witness:
  "visualization Upload None (initial_style Upload) [PInt 99, PInt 110, PInt 250, PFloat ''0.5''] = Inr None
   \<and> valid_table [(''Label'', [Str ''A''])]
   \<and> length [(''Label'', [Str ''A''])] < (2::nat)
   \<and> visualization Upload (Some [(''Label'', [Str ''A''])]) (initial_style Upload)
        [PInt 99, PInt 110, PInt 250, PFloat ''0.5''] = Inr None
   \<and> valid_table [(''Label'', []), (''Value'', [])]
   \<and> nrows [(''Label'', []), (''Value'', [])] = 0
   \<and> visualization Manual (Some [(''Label'', []), (''Value'', [])]) (initial_style Manual)
        [PInt 99, PInt 110, PInt 250, PFloat ''0.5''] = Inr None"
  using no_table_no_chart [of None Upload "initial_style Upload" "[PInt 99, PInt 110, PInt 250, PFloat ''0.5'']"]
    no_table_no_chart [of "Some [(''Label'', [Str ''A''])]" Upload "initial_style Upload"
      "[PInt 99, PInt 110, PInt 250, PFloat ''0.5'']"]
    no_table_no_chart [of "Some [(''Label'', []), (''Value'', [])]" Manual "initial_style Manual"
      "[PInt 99, PInt 110, PInt 250, PFloat ''0.5'']"]
  by (simp add: nrows_def valid_table_def columns_def)

subsection \<open>The fill colour tuple\<close>

text \<open>
  Claim C3, as the specification states it, fails: for the fill colour \<^verbatim>\<open>#GGGGGG\<close> the
  tuple computation raises \<^verbatim>\<open>ValueError\<close>, and so does the whole run, on a table that
  would otherwise be drawn.
\<close>

theorem malformed_fillcolor_counterexample:
  "rgba ''#GGGGGG'' (PFloat ''0.5'') = Inl ValueError \<and>
   script Manual (Some abc_table) ((initial_style Manual)\<lparr>fillcolor := ''#GGGGGG''\<rparr>) = Inl ValueError"
  by (simp add: script_def initial_style_def rgba_def lstrip_hash_def slice2_def int16_def
      skip_sign_def skip_prefix_def is_space_def digit_value_def)

text \<open>
  Claim C3, amended. Whenever one of the three two-character groups of the fill colour
  (taken at offsets 0, 2 and 4 after the leading \<^verbatim>\<open>#\<close> characters are stripped) is rejected
  by \<^verbatim>\<open>int(_, 16)\<close>, the tuple computation raises \<^verbatim>\<open>ValueError\<close>; it runs outside the
  \<^verbatim>\<open>with\<close> block, so the run ends with that error whatever the table is, and no default
  colour is used.
\<close>

theorem malformed_fillcolor_raises:
  assumes "\<exists>i\<in>set [0, 2, 4]. \<exists>e. int16 (slice2 (lstrip_hash (fillcolor sty)) i) = Inl e"
  shows "rgba (fillcolor sty) (fill_opacity sty) = Inl ValueError \<and>
         script opt table sty = Inl ValueError"
proof -
  from assms obtain e where "channels (fillcolor sty) [0, 2, 4] = Inl e"
    using channels_fail_iff [of "fillcolor sty" "[0, 2, 4]"] by blast
  then have "rgba (fillcolor sty) (fill_opacity sty) = Inl ValueError"
    by (auto simp: rgba_def simp del: channels.simps dest: channels_error)
  then show ?thesis by (simp add: script_def)
qed

theorem malformed_fillcolor_raises_witness:
  "(\<exists>i\<in>set [0, 2, 4]. \<exists>e. int16 (slice2 (lstrip_hash ''#GGGGGG'') i) = Inl e) \<and>
   rgba ''#GGGGGG'' (PFloat ''0.5'') = Inl ValueError \<and>
   script Example (Some abc_table) ((initial_style Example)\<lparr>fillcolor := ''#GGGGGG''\<rparr>) = Inl ValueError"
proof -
  have h: "\<exists>i\<in>set [0, 2, 4]. \<exists>e. int16 (slice2 (lstrip_hash
      (fillcolor ((initial_style Example)\<lparr>fillcolor := ''#GGGGGG''\<rparr>))) i) = Inl e"
    by (simp add: lstrip_hash_def slice2_def int16_def
        skip_sign_def skip_prefix_def is_space_def digit_value_def)
  show ?thesis
    using h malformed_fillcolor_raises [OF h, of Example "Some abc_table"]
    by (simp add: initial_style_def)
qed

text \<open>
  Claim C5. For a fill colour made of any number of \<^verbatim>\<open>#\<close> characters and six hexadecimal
  digits, and any fill opacity, the tuple is the three bytes read from the successive
  digit pairs followed by the opacity; \<^verbatim>\<open>#636EFA\<close> gives 99, 110, 250 and the opacity.
\<close>

theorem rgba_valid_hex:
  assumes "digit_value c1 = Some d1" and "digit_value c2 = Some d2"
    and "digit_value c3 = Some d3" and "digit_value c4 = Some d4"
    and "digit_value c5 = Some d5" and "digit_value c6 = Some d6"
  shows "rgba (replicate k (CHR ''#'') @ [c1, c2, c3, c4, c5, c6]) alpha =
     Inr [PInt (int (16 * d1 + d2)), PInt (int (16 * d3 + d4)), PInt (int (16 * d5 + d6)), alpha]"
proof -
  have "lstrip_hash (replicate k (CHR ''#'') @ [c1, c2, c3, c4, c5, c6]) = [c1, c2, c3, c4, c5, c6]"
    using digit_value_SomeD(3) [OF assms(1)]
    by (induction k) (simp_all add: lstrip_hash_def)
  then show ?thesis
    by (simp add: rgba_def slice2_def int16_two_digits [OF assms(1,2)]
        int16_two_digits [OF assms(3,4)] int16_two_digits [OF assms(5,6)])
qed

theorem rgba_valid_hex_witness:
  "digit_value (CHR ''6'') = Some 6 \<and> digit_value (CHR ''3'') = Some 3 \<and>
   digit_value (CHR ''E'') = Some 14 \<and> digit_value (CHR ''F'') = Some 15 \<and>
   digit_value (CHR ''A'') = Some 10 \<and>
   rgba ''#636EFA'' (PFloat ''0.5'') = Inr [PInt 99, PInt 110, PInt 250, PFloat ''0.5'']"
proof -
  have d: "digit_value (CHR ''6'') = Some 6" "digit_value (CHR ''3'') = Some 3"
    "digit_value (CHR ''E'') = Some 14" "digit_value (CHR ''F'') = Some 15"
    "digit_value (CHR ''A'') = Some 10"
    by (simp_all add: digit_value_def)
  show ?thesis
    using d rgba_valid_hex [OF d(1) d(2) d(1) d(3) d(4) d(5), of 1 "PFloat ''0.5''"]
    by simp
qed

text \<open>
  Claim C9. Whenever the tuple computation returns, the tuple has four elements, so it is
  true as a condition and the default branch of the \<^verbatim>\<open>fillcolor\<close> argument is never
  taken: the argument is \<^verbatim>\<open>RGBA\<close> followed by the printed tuple, and so is the fill colour
  of every chart the run draws.
\<close>

theorem fallback_unreachable:
  assumes "rgba (fillcolor sty) (fill_opacity sty) = Inr t"
  shows "length t = 4 \<and> t \<noteq> [] \<and> fillcolor_arg t = ''RGBA'' @ repr_tuple t \<and>
         (script opt table sty = Inr None \<or>
          (\<exists>f. script opt table sty = Inr (Some f) \<and>
               sp_fillcolor (fig_data f) = ''RGBA'' @ repr_tuple t))"
proof -
  have l: "length t = 4" using rgba_length [OF assms] .
  then have ne: "t \<noteq> []" by auto
  then have fc: "fillcolor_arg t = ''RGBA'' @ repr_tuple t" by (simp add: fillcolor_arg_def)
  have "script opt table sty = Inr None \<or>
          (\<exists>f. script opt table sty = Inr (Some f) \<and>
               sp_fillcolor (fig_data f) = ''RGBA'' @ repr_tuple t)"
  proof (cases "fig opt table sty t")
    case (Inl e)
    then show ?thesis using assms by (simp add: script_def visualization_None)
  next
    case (Inr f)
    then show ?thesis
      using assms fc fig_style(4) [OF Inr] by (simp add: script_def visualization_Some)
  qed
  with l ne fc show ?thesis by simp
qed

theorem fallback_unreachable_witness:
  "rgba ''#FF0000'' (PFloat ''0.3'') = Inr [PInt 255, PInt 0, PInt 0, PFloat ''0.3''] \<and>
   (\<exists>f. script Manual (Some abc_table)
          ((initial_style Manual)\<lparr>fillcolor := ''#FF0000'', fill_opacity := PFloat ''0.3''\<rparr>) = Inr (Some f) \<and>
        sp_fillcolor (fig_data f) = ''RGBA(255, 0, 0, 0.3)'')"
proof -
  have r: "rgba (fillcolor ((initial_style Manual)\<lparr>fillcolor := ''#FF0000'', fill_opacity := PFloat ''0.3''\<rparr>))
             (fill_opacity ((initial_style Manual)\<lparr>fillcolor := ''#FF0000'', fill_opacity := PFloat ''0.3''\<rparr>))
           = Inr [PInt 255, PInt 0, PInt 0, PFloat ''0.3'']"
    by (simp add: initial_style_def rgba_def lstrip_hash_def slice2_def int16_def
      skip_sign_def skip_prefix_def is_space_def digit_value_def)
  have p: "repr_tuple [PInt 255, PInt 0, PInt 0, PFloat ''0.3''] = ''(255, 0, 0, 0.3)''"
    by code_simp
  have s: "script Manual (Some abc_table)
          ((initial_style Manual)\<lparr>fillcolor := ''#FF0000'', fill_opacity := PFloat ''0.3''\<rparr>) \<noteq> Inr None"
    by (simp add: script_def initial_style_def rgba_def lstrip_hash_def slice2_def int16_def
      skip_sign_def skip_prefix_def is_space_def digit_value_def visualization_def suppress_def
      fig_def abc_table_def getitem_def columns_def df_getitem_def)
  show ?thesis
    using r p s fallback_unreachable [OF r, of Manual "Some abc_table"]
    by (simp add: initial_style_def)
qed

subsection \<open>The assembled trace and its layout\<close>

text \<open>
  Claim C7. In every chart the run draws, the draw mode is \<^verbatim>\<open>none\<close> for an empty mode
  selection and the selected modes joined by \<^verbatim>\<open>+\<close> otherwise, the hover template is the
  user's template followed by \<^verbatim>\<open><extra></extra>\<close>, and the fill is \<^verbatim>\<open>toself\<close>.
\<close>

theorem trace_mode_hover_fill:
  assumes "script opt table sty = Inr (Some f)"
  shows "sp_mode (fig_data f) = (if mode sty = [] then ''none'' else join ''+'' (mode sty)) \<and>
         sp_hovertemplate (fig_data f) = hovertemplate sty @ ''<extra></extra>'' \<and>
         sp_fill (fig_data f) = ''toself''"
  using assms by (auto simp: script_Some dest: fig_style(1,2,3))

theorem trace_mode_hover_fill_witness:
  "(\<exists>f. script Manual (Some abc_table) (initial_style Manual) = Inr (Some f) \<and>
        sp_mode (fig_data f) = ''lines+markers'' \<and>
        sp_hovertemplate (fig_data f) = ''%{theta}: %{r}<extra></extra>'' \<and>
        sp_fill (fig_data f) = ''toself'') \<and>
   (\<exists>f. script Manual (Some abc_table) ((initial_style Manual)\<lparr>mode := []\<rparr>) = Inr (Some f) \<and>
        sp_mode (fig_data f) = ''none'')"
proof -
  have e1: "\<exists>f. script Manual (Some abc_table) (initial_style Manual) = Inr (Some f)"
    by (simp add: script_def initial_style_def rgba_def lstrip_hash_def slice2_def int16_def
      skip_sign_def skip_prefix_def is_space_def digit_value_def visualization_def suppress_def
      fig_def abc_table_def getitem_def columns_def df_getitem_def)
  have e2: "\<exists>f. script Manual (Some abc_table) ((initial_style Manual)\<lparr>mode := []\<rparr>) = Inr (Some f)"
    by (simp add: script_def initial_style_def rgba_def lstrip_hash_def slice2_def int16_def
      skip_sign_def skip_prefix_def is_space_def digit_value_def visualization_def suppress_def
      fig_def abc_table_def getitem_def columns_def df_getitem_def)
  from e1 obtain f1 where f1: "script Manual (Some abc_table) (initial_style Manual) = Inr (Some f1)"
    by blast
  from e2 obtain f2 where f2: "script Manual (Some abc_table) ((initial_style Manual)\<lparr>mode := []\<rparr>) = Inr (Some f2)"
    by blast
  show ?thesis
    using f1 f2 trace_mode_hover_fill [OF f1] trace_mode_hover_fill [OF f2]
    by (simp add: initial_style_def)
qed

text \<open>
  Claim C6, as the specification states it, fails: the layout title also depends on the
  data-entry choice. With the example frame as the table and one style whose title is
  \<^verbatim>\<open>Skills\<close>, the example choice and the upload choice give different descriptions.
\<close>

theorem option_changes_title_counterexample:
  "script Example (Some example_df) ((initial_style Example)\<lparr>title := ''Skills''\<rparr>)
     \<noteq> script Upload (Some example_df) ((initial_style Example)\<lparr>title := ''Skills''\<rparr>)"
  by (simp add: script_def initial_style_def rgba_def lstrip_hash_def slice2_def int16_def
      skip_sign_def skip_prefix_def is_space_def digit_value_def visualization_def suppress_def
      fig_def example_df_def getitem_def columns_def df_getitem_def layout_of_def)

text \<open>
  Claim C6, amended. Two runs on the same table and the same style, under any two
  data-entry choices, end the same way: both with the same error, both with no chart,
  or both with a chart, and then the two charts have the same trace and the same layout
  except for the title, which is \<^verbatim>\<open>Job Requirements\<close> under the example choice and the
  style's title otherwise. The two results are identical when the choices agree on being
  the example choice or the style's title is \<^verbatim>\<open>Job Requirements\<close>.
\<close>

theorem same_table_style_differ_in_title_only:
  "((\<exists>e. script opt1 table sty = Inl e \<and> script opt2 table sty = Inl e)
    \<or> (script opt1 table sty = Inr None \<and> script opt2 table sty = Inr None)
    \<or> (\<exists>f1 f2. script opt1 table sty = Inr (Some f1) \<and> script opt2 table sty = Inr (Some f2)
          \<and> fig_data f2 = fig_data f1
          \<and> title_text (fig_layout f1) = (if opt1 = Example then ''Job Requirements'' else title sty)
          \<and> fig_layout f2 = (fig_layout f1)\<lparr>title_text :=
                (if opt2 = Example then ''Job Requirements'' else title sty)\<rparr>))
   \<and> ((opt1 = Example) = (opt2 = Example) \<or> title sty = ''Job Requirements''
        \<longrightarrow> script opt1 table sty = script opt2 table sty)"
proof
  show "(\<exists>e. script opt1 table sty = Inl e \<and> script opt2 table sty = Inl e)
    \<or> (script opt1 table sty = Inr None \<and> script opt2 table sty = Inr None)
    \<or> (\<exists>f1 f2. script opt1 table sty = Inr (Some f1) \<and> script opt2 table sty = Inr (Some f2)
          \<and> fig_data f2 = fig_data f1
          \<and> title_text (fig_layout f1) = (if opt1 = Example then ''Job Requirements'' else title sty)
          \<and> fig_layout f2 = (fig_layout f1)\<lparr>title_text :=
                (if opt2 = Example then ''Job Requirements'' else title sty)\<rparr>)"
  proof (cases "rgba (fillcolor sty) (fill_opacity sty)")
    case (Inl e)
    then show ?thesis by (simp add: script_def)
  next
    case (Inr t)
    show ?thesis
    proof (cases "fig opt1 table sty t")
      case (Inl e)
      then have "fig opt2 table sty t = Inl e"
        by (simp add: fig_other_option [of opt2 table sty t opt1])
      with Inl Inr have "script opt1 table sty = Inr None \<and> script opt2 table sty = Inr None"
        by (auto simp: script_def visualization_None)
      then show ?thesis by blast
    next
      case f1: (Inr f1)
      then have f2: "fig opt2 table sty t = Inr (f1\<lparr>fig_layout := layout_of opt2 sty\<rparr>)"
        by (simp add: fig_other_option [of opt2 table sty t opt1])
      have l1: "fig_layout f1 = layout_of opt1 sty"
        using fig_style(5) [OF f1] .
      have "script opt1 table sty = Inr (Some f1)"
        using Inr f1 by (simp add: script_def visualization_Some)
      moreover have "script opt2 table sty = Inr (Some (f1\<lparr>fig_layout := layout_of opt2 sty\<rparr>))"
        using Inr f2 by (simp add: script_def visualization_Some)
      moreover have "title_text (fig_layout f1) = (if opt1 = Example then ''Job Requirements'' else title sty)"
        by (simp add: l1 layout_of_def)
      moreover have "layout_of opt2 sty = (fig_layout f1)\<lparr>title_text :=
                (if opt2 = Example then ''Job Requirements'' else title sty)\<rparr>"
        by (simp only: l1 layout_of_retitle [of opt2 sty opt1])
      ultimately show ?thesis by simp
    qed
  qed
next
  show "(opt1 = Example) = (opt2 = Example) \<or> title sty = ''Job Requirements''
        \<longrightarrow> script opt1 table sty = script opt2 table sty"
  proof
    assume "(opt1 = Example) = (opt2 = Example) \<or> title sty = ''Job Requirements''"
    then have "layout_of opt1 sty = layout_of opt2 sty" by (rule layout_of_same)
    then have "fig opt1 table sty t = fig opt2 table sty t" for t
      by (rule fig_same_layout)
    then show "script opt1 table sty = script opt2 table sty"
      by (simp only: script_def visualization_def)
  qed
qed

theorem same_table_style_differ_in_title_only_witness:
  "((Example = Example) = (Upload = Example) \<or> title (initial_style Example) = ''Job Requirements'')
   \<and> script Example (Some example_df) (initial_style Example)
       = script Upload (Some example_df) (initial_style Example)
   \<and> (\<exists>f1 f2. script Example (Some example_df) ((initial_style Example)\<lparr>title := ''Skills''\<rparr>) = Inr (Some f1)
         \<and> script Upload (Some example_df) ((initial_style Example)\<lparr>title := ''Skills''\<rparr>) = Inr (Some f2)
         \<and> fig_data f2 = fig_data f1
         \<and> title_text (fig_layout f1) = ''Job Requirements''
         \<and> fig_layout f2 = (fig_layout f1)\<lparr>title_text := ''Skills''\<rparr>)"
proof -
  have h: "(Example = Example) = (Upload = Example) \<or> title (initial_style Example) = ''Job Requirements''"
    by (simp add: initial_style_def)
  have n: "script Example (Some example_df) ((initial_style Example)\<lparr>title := ''Skills''\<rparr>) \<noteq> Inr None"
    by (simp add: script_def initial_style_def rgba_def lstrip_hash_def slice2_def int16_def
      skip_sign_def skip_prefix_def is_space_def digit_value_def visualization_def suppress_def
      fig_def example_df_def getitem_def columns_def df_getitem_def)
  have e: "\<forall>e. script Example (Some example_df) ((initial_style Example)\<lparr>title := ''Skills''\<rparr>) \<noteq> Inl e"
    by (simp add: script_def initial_style_def rgba_def lstrip_hash_def slice2_def int16_def
      skip_sign_def skip_prefix_def is_space_def digit_value_def visualization_def suppress_def
      fig_def example_df_def getitem_def columns_def df_getitem_def)
  from h same_table_style_differ_in_title_only [of Example "Some example_df" "initial_style Example" Upload]
  have a: "script Example (Some example_df) (initial_style Example)
       = script Upload (Some example_df) (initial_style Example)"
    by blast
  from n e same_table_style_differ_in_title_only [of Example "Some example_df"
      "(initial_style Example)\<lparr>title := ''Skills''\<rparr>" Upload]
  have b: "\<exists>f1 f2. script Example (Some example_df) ((initial_style Example)\<lparr>title := ''Skills''\<rparr>) = Inr (Some f1)
         \<and> script Upload (Some example_df) ((initial_style Example)\<lparr>title := ''Skills''\<rparr>) = Inr (Some f2)
         \<and> fig_data f2 = fig_data f1
         \<and> title_text (fig_layout f1) = ''Job Requirements''
         \<and> fig_layout f2 = (fig_layout f1)\<lparr>title_text := ''Skills''\<rparr>"
    by (auto simp: initial_style_def)
  from h a b show ?thesis by blast
qed

subsection \<open>Reset\<close>

text \<open>
  Claim C4. From any prior state, \<^verbatim>\<open>_reset\<close> leaves every one of the fifteen style keys
  at its documented default.
\<close>

theorem reset_defaults:
  "session_state (reset st) ''title'' = Some (Str '''') \<and>
   session_state (reset st) ''hovertemplate'' = Some (Str ''%{theta}: %{r}'') \<and>
   session_state (reset st) ''opacity'' = Some (Num (PInt 1)) \<and>
   session_state (reset st) ''marker_opacity'' = Some (Num (PInt 1)) \<and>
   session_state (reset st) ''line_smoothing'' = Some (Num (PInt 1)) \<and>
   session_state (reset st) ''mode'' = Some (StrList [''lines'', ''markers'']) \<and>
   session_state (reset st) ''marker_color'' = Some (Str ''#636EFA'') \<and>
   session_state (reset st) ''line_color'' = Some (Str ''#636EFA'') \<and>
   session_state (reset st) ''fillcolor'' = Some (Str ''#636EFA'') \<and>
   session_state (reset st) ''marker_size'' = Some (Num (PInt 6)) \<and>
   session_state (reset st) ''marker_symbol'' = Some (Str ''circle'') \<and>
   session_state (reset st) ''line_dash'' = Some (Str ''solid'') \<and>
   session_state (reset st) ''line_shape'' = Some (Str ''linear'') \<and>
   session_state (reset st) ''line_width'' = Some (Num (PInt 2)) \<and>
   session_state (reset st) ''fill_opacity'' = Some (Num (PFloat ''0.5''))"
  by (simp add: reset_def)

text \<open>
  Claim C8. \<^verbatim>\<open>_reset\<close> leaves the table as it was, and every session key other than the
  fifteen style keys keeps its value.
\<close>

theorem reset_frame:
  "input_df (reset st) = input_df st \<and>
   (\<forall>k. k \<notin> set style_keys \<longrightarrow> session_state (reset st) k = session_state st k)"
  by (simp add: reset_def style_keys_def)

theorem reset_frame_witness:
  "''uploaded_file'' \<notin> set style_keys \<and>
   input_df (reset \<lparr>session_state = [''uploaded_file'' \<mapsto> Str ''data.xlsx''],
                    input_df = Some abc_table\<rparr>) = Some abc_table \<and>
   session_state (reset \<lparr>session_state = [''uploaded_file'' \<mapsto> Str ''data.xlsx''],
                         input_df = Some abc_table\<rparr>) ''uploaded_file'' = Some (Str ''data.xlsx'')"
  using reset_frame [of "\<lparr>session_state = [''uploaded_file'' \<mapsto> Str ''data.xlsx''],
                    input_df = Some abc_table\<rparr>"]
  by (simp add: style_keys_def)

end
